theory Spec2Isabelle
  imports Main
begin

section \<open>JavaScript values\<close>

text \<open>
  The client of \<^verbatim>\<open>src/CachetAPI.js\<close> passes untyped JavaScript values around: ids, records,
  flags, responses. They are modelled as one datatype. Numbers are the integers (ids and HTTP
  status codes); fractions, NaN and the exponent notation of very large numbers are outside
  the model. A plain object is the list of its own properties in enumeration order, keys
  distinct; a lookup takes the first entry.
\<close>

datatype jsval =
    JUndefined
  | JNull
  | JBool bool
  | JNum int
  | JStr string
  | JArr "jsval list"
  | JObj "(string \<times> jsval) list"

text \<open>
  What a \<^verbatim>\<open>catch\<close> clause can receive: any value, or an instance of \<^verbatim>\<open>Error\<close> (its name, its
  message, and the further properties put on it, such as the \<^verbatim>\<open>response\<close> that the HTTP
  library attaches to a failed request).
\<close>

datatype thrown =
    Value jsval
  | ErrorObject string string "(string \<times> jsval) list"

type_synonym outcome = "thrown + jsval"

text \<open>Truthiness, as tested by \<^verbatim>\<open>if (x)\<close>, \<^verbatim>\<open>!x\<close> and \<^verbatim>\<open>x && y\<close>.\<close>

fun truthy :: "jsval \<Rightarrow> bool" where
  "truthy JUndefined = False"
| "truthy JNull = False"
| "truthy (JBool b) = b"
| "truthy (JNum n) = (n \<noteq> 0)"
| "truthy (JStr s) = (s \<noteq> [])"
| "truthy (JArr xs) = True"
| "truthy (JObj kvs) = True"

fun thrown_truthy :: "thrown \<Rightarrow> bool" where
  "thrown_truthy (Value v) = truthy v"
| "thrown_truthy (ErrorObject n m ps) = True"

text \<open>Conversion to a string, as done by \<^verbatim>\<open>"..." + x\<close>.\<close>

fun digits :: "nat \<Rightarrow> string" where
  "digits n = (if n < 10 then [''0123456789'' ! n]
               else digits (n div 10) @ [''0123456789'' ! (n mod 10)])"

declare digits.simps [simp del]

definition number_to_string :: "int \<Rightarrow> string" where
  "number_to_string n = (if n < 0 then CHR ''-'' # digits (nat (- n)) else digits (nat n))"

fun join :: "string \<Rightarrow> string list \<Rightarrow> string" where
  "join sep [] = []"
| "join sep [s] = s"
| "join sep (s # t # ss) = s @ sep @ join sep (t # ss)"

fun to_string :: "jsval \<Rightarrow> string" where
  "to_string JUndefined = ''undefined''"
| "to_string JNull = ''null''"
| "to_string (JBool b) = (if b then ''true'' else ''false'')"
| "to_string (JNum n) = number_to_string n"
| "to_string (JStr s) = s"
| "to_string (JArr xs) =
     join '','' (map (\<lambda>x. if x = JUndefined \<or> x = JNull then [] else to_string x) xs)"
| "to_string (JObj kvs) = ''[object Object]''"

text \<open>\<^verbatim>\<open>JSON.stringify\<close>: the text of a value, and \<^verbatim>\<open>undefined\<close> for \<^verbatim>\<open>undefined\<close> itself.\<close>

definition hex_digit :: "nat \<Rightarrow> char" where
  "hex_digit n = ''0123456789abcdef'' ! (n mod 16)"

definition json_escape :: "char \<Rightarrow> string" where
  "json_escape c =
     (if c = CHR 0x22 then [CHR 0x5C, CHR 0x22]
      else if c = CHR 0x5C then [CHR 0x5C, CHR 0x5C]
      else if c = CHR 0x08 then [CHR 0x5C, CHR ''b'']
      else if c = CHR 0x09 then [CHR 0x5C, CHR ''t'']
      else if c = CHR 0x0A then [CHR 0x5C, CHR ''n'']
      else if c = CHR 0x0C then [CHR 0x5C, CHR ''f'']
      else if c = CHR 0x0D then [CHR 0x5C, CHR ''r'']
      else if (of_char c :: nat) < 32
        then [CHR 0x5C, CHR ''u'', CHR ''0'', CHR ''0'',
              hex_digit (of_char c div 16), hex_digit (of_char c)]
      else [c])"

definition json_quote :: "string \<Rightarrow> string" where
  "json_quote s = CHR 0x22 # concat (map json_escape s) @ [CHR 0x22]"

fun json_text :: "jsval \<Rightarrow> string" where
  "json_text JUndefined = ''null''"
| "json_text JNull = ''null''"
| "json_text (JBool b) = (if b then ''true'' else ''false'')"
| "json_text (JNum n) = number_to_string n"
| "json_text (JStr s) = json_quote s"
| "json_text (JArr xs) = ''['' @ join '','' (map json_text xs) @ '']''"
| "json_text (JObj kvs) =
     ''{'' @ join '','' (map (\<lambda>kv. json_quote (fst kv) @ '':'' @ json_text (snd kv))
                           (filter (\<lambda>kv. snd kv \<noteq> JUndefined) kvs)) @ ''}''"

definition JSON_stringify :: "jsval \<Rightarrow> jsval" where
  "JSON_stringify v = (if v = JUndefined then JUndefined else JStr (json_text v))"

text \<open>
  Reading a property. On \<^verbatim>\<open>undefined\<close> and \<^verbatim>\<open>null\<close> the read throws a \<^verbatim>\<open>TypeError\<close>; on any
  other value without that property it gives \<^verbatim>\<open>undefined\<close>. The names the client reads
  (\<^verbatim>\<open>url\<close>, \<^verbatim>\<open>apiToken\<close>, \<^verbatim>\<open>data\<close>, \<^verbatim>\<open>response\<close>, \<^verbatim>\<open>status\<close>, \<^verbatim>\<open>statusText\<close>) are no built-in
  property of a string, number, boolean or array.
\<close>

definition type_error :: "jsval \<Rightarrow> string \<Rightarrow> thrown" where
  "type_error v k =
     ErrorObject ''TypeError''
       (''Cannot read properties of '' @ to_string v @ '' (reading '' @ [CHR 0x27] @ k @ [CHR 0x27] @ '')'')
       []"

fun own_property :: "jsval \<Rightarrow> string \<Rightarrow> jsval" where
  "own_property (JObj kvs) k = (case map_of kvs k of Some v \<Rightarrow> v | None \<Rightarrow> JUndefined)"
| "own_property JUndefined k = JUndefined"
| "own_property JNull k = JUndefined"
| "own_property (JBool b) k = JUndefined"
| "own_property (JNum n) k = JUndefined"
| "own_property (JStr s) k = JUndefined"
| "own_property (JArr xs) k = JUndefined"

definition read_prop :: "jsval \<Rightarrow> string \<Rightarrow> thrown + jsval" where
  "read_prop v k =
     (if v = JUndefined \<or> v = JNull then Inl (type_error v k) else Inr (own_property v k))"

fun thrown_read_prop :: "thrown \<Rightarrow> string \<Rightarrow> thrown + jsval" where
  "thrown_read_prop (Value v) k = read_prop v k"
| "thrown_read_prop (ErrorObject n m ps) k =
     Inr (case map_of ps k of
            Some v \<Rightarrow> v
          | None \<Rightarrow> if k = ''message'' then JStr m else if k = ''name'' then JStr n
                    else JUndefined)"

text \<open>
  \<^verbatim>\<open>error.toString()\<close>: a method call, so it throws on \<^verbatim>\<open>undefined\<close> and \<^verbatim>\<open>null\<close>; on an
  \<^verbatim>\<open>Error\<close> it is \<^verbatim>\<open>Error.prototype.toString\<close>.
\<close>

fun toString :: "thrown \<Rightarrow> thrown + string" where
  "toString (Value v) =
     (if v = JUndefined \<or> v = JNull then Inl (type_error v ''toString'')
      else Inr (to_string v))"
| "toString (ErrorObject n m ps) =
     Inr (if n = [] then m else if m = [] then n else n @ '': '' @ m)"

definition and_then :: "thrown + 'a \<Rightarrow> ('a \<Rightarrow> thrown + 'b) \<Rightarrow> thrown + 'b" where
  "and_then r f = (case r of Inl t \<Rightarrow> Inl t | Inr x \<Rightarrow> f x)"

section \<open>The HTTP library and the outside world\<close>

text \<open>
  The client talks to the network through one instance of the HTTP library (axios), made
  by \<^verbatim>\<open>axios.create\<close> from a base URL and a table of headers. A call of one of its verbs
  sends one request carrying that configuration and either rejects with a thrown value or
  resolves to a response object. The network is a parameter: a function from the requests
  sent so far and the new request to the result of the call. The world records the requests
  sent and what was written with \<^verbatim>\<open>console.error\<close>.
\<close>

record request =
  verb :: string
  path :: string
  payload :: "jsval option"
  base :: jsval
  hdrs :: "(string \<times> jsval) list"

record axios_instance =
  baseURL :: jsval
  headers :: "(string \<times> jsval) list"

record world =
  sent :: "request list"
  console :: "thrown list"

type_synonym net = "request list \<Rightarrow> request \<Rightarrow> outcome"

definition axios_create :: "jsval \<Rightarrow> (string \<times> jsval) list \<Rightarrow> axios_instance" where
  "axios_create b hs = \<lparr>baseURL = b, headers = hs\<rparr>"

definition axios_request ::
  "axios_instance \<Rightarrow> string \<Rightarrow> string \<Rightarrow> jsval option \<Rightarrow> net \<Rightarrow> world \<Rightarrow> outcome \<times> world" where
  "axios_request inst m url d net w =
     (let rq = \<lparr>verb = m, path = url, payload = d, base = baseURL inst, hdrs = headers inst\<rparr>
      in (net (sent w) rq, w\<lparr>sent := sent w @ [rq]\<rparr>))"

definition axios_get :: "axios_instance \<Rightarrow> string \<Rightarrow> net \<Rightarrow> world \<Rightarrow> outcome \<times> world" where
  "axios_get inst url = axios_request inst ''GET'' url None"

definition axios_delete :: "axios_instance \<Rightarrow> string \<Rightarrow> net \<Rightarrow> world \<Rightarrow> outcome \<times> world" where
  "axios_delete inst url = axios_request inst ''DELETE'' url None"

definition axios_post ::
  "axios_instance \<Rightarrow> string \<Rightarrow> jsval \<Rightarrow> net \<Rightarrow> world \<Rightarrow> outcome \<times> world" where
  "axios_post inst url d = axios_request inst ''POST'' url (Some d)"

definition axios_put ::
  "axios_instance \<Rightarrow> string \<Rightarrow> jsval \<Rightarrow> net \<Rightarrow> world \<Rightarrow> outcome \<times> world" where
  "axios_put inst url d = axios_request inst ''PUT'' url (Some d)"

section \<open>The client\<close>

record client =
  options :: jsval
  api :: axios_instance

subsection \<open>\<^verbatim>\<open>constructor\<close>\<close>

text \<open>
  \<^verbatim>\<open>!options || !options.url\<close> reads \<^verbatim>\<open>options.url\<close> only when \<^verbatim>\<open>options\<close> is truthy. The
  constructor touches nothing of the world: \<^verbatim>\<open>axios.create\<close> only builds the instance.
\<close>

definition required_option_error :: thrown where
  "required_option_error = ErrorObject ''Error'' ''Error! options.url a is required option!'' []"

definition constructor :: "jsval \<Rightarrow> world \<Rightarrow> (thrown + client) \<times> world" where
  "constructor opts w =
     (if truthy opts then
        (case read_prop opts ''url'' of
           Inl t \<Rightarrow> (Inl t, w)
         | Inr url \<Rightarrow>
             if truthy url then
               (and_then (read_prop opts ''url'') (\<lambda>u.
                and_then (read_prop opts ''apiToken'') (\<lambda>tok.
                  Inr \<lparr>options = opts,
                       api = axios_create u [(''X-Cachet-Token'', tok)]\<rparr>)), w)
             else (Inl required_option_error, w))
      else (Inl required_option_error, w))"

subsection \<open>\<^verbatim>\<open>createError\<close>\<close>

text \<open>
  \<^verbatim>\<open>error && error.response\<close> reads \<^verbatim>\<open>error.response\<close> only when \<^verbatim>\<open>error\<close> is truthy. The
  text starts empty and grows by one piece for each truthy field of the response. The
  function returns the new error, unless \<^verbatim>\<open>error.toString()\<close> throws first; in that case
  nothing has been logged yet. \<^verbatim>\<open>throw this.createError(...)\<close> raises whichever it is.
\<close>

definition extra_of_response :: "jsval \<Rightarrow> thrown + string" where
  "extra_of_response response =
     and_then (read_prop response ''status'') (\<lambda>status.
     let x1 = (if truthy status then [] @ (to_string status @ '' '') else []) in
     and_then (read_prop response ''statusText'') (\<lambda>statusText.
     let x2 = (if truthy statusText then x1 @ (to_string statusText @ '' | '') else x1) in
     and_then (read_prop response ''data'') (\<lambda>d.
     let x3 = (if truthy d then x2 @ to_string (JSON_stringify d) else x2) in
     Inr x3)))"

definition new_request_error :: "string \<Rightarrow> string \<Rightarrow> string \<Rightarrow> thrown" where
  "new_request_error type url extraErrorText =
     ErrorObject ''Error'' (''Unable to '' @ type @ '' '' @ url @ '': '' @ extraErrorText) []"

definition createError ::
  "string \<Rightarrow> string \<Rightarrow> thrown \<Rightarrow> world \<Rightarrow> (thrown + thrown) \<times> world" where
  "createError url type error w =
     (let extraErrorText =
            (if thrown_truthy error then
               and_then (thrown_read_prop error ''response'') (\<lambda>response.
                 if truthy response then extra_of_response response else toString error)
             else toString error)
      in case extraErrorText of
           Inl t \<Rightarrow> (Inl t, w)
         | Inr x \<Rightarrow>
             (Inr (new_request_error type url x), w\<lparr>console := console w @ [error]\<rparr>))"

definition throw :: "(thrown + thrown) \<times> world \<Rightarrow> outcome \<times> world" where
  "throw r = (case fst r of Inl t \<Rightarrow> (Inl t, snd r) | Inr e \<Rightarrow> (Inl e, snd r))"

subsection \<open>The operations\<close>

text \<open>
  Each method of the class, in the order of the source. An \<^verbatim>\<open>async\<close> method that awaits one
  call is the sequential function of that call's result; \<^verbatim>\<open>response.data.data\<close> is two
  property reads, outside the \<^verbatim>\<open>try\<close>.
\<close>

definition ping :: "client \<Rightarrow> net \<Rightarrow> world \<Rightarrow> outcome \<times> world" where
  "ping this net w =
     (let url = ''/v1/ping'' in
      case axios_get (api this) url net w of
        (Inl e, w') \<Rightarrow> throw (createError url ''GET'' e w')
      | (Inr response, w') \<Rightarrow>
          (and_then (read_prop response ''data'') (\<lambda>d. read_prop d ''data''), w'))"

definition getVersion :: "client \<Rightarrow> jsval \<Rightarrow> net \<Rightarrow> world \<Rightarrow> outcome \<times> world" where
  "getVersion this with_meta net w =
     (let url = ''/v1/version'' in
      case axios_get (api this) url net w of
        (Inl e, w') \<Rightarrow> throw (createError url ''GET'' e w')
      | (Inr response, w') \<Rightarrow>
          (if truthy with_meta then read_prop response ''data''
             else and_then (read_prop response ''data'') (\<lambda>d. read_prop d ''data''), w'))"

definition getComponents :: "client \<Rightarrow> jsval \<Rightarrow> net \<Rightarrow> world \<Rightarrow> outcome \<times> world" where
  "getComponents this with_meta net w =
     (let url = ''/v1/components'' in
      case axios_get (api this) url net w of
        (Inl e, w') \<Rightarrow> throw (createError url ''GET'' e w')
      | (Inr response, w') \<Rightarrow>
          (if truthy with_meta then read_prop response ''data''
             else and_then (read_prop response ''data'') (\<lambda>d. read_prop d ''data''), w'))"

definition getComponent :: "client \<Rightarrow> jsval \<Rightarrow> net \<Rightarrow> world \<Rightarrow> outcome \<times> world" where
  "getComponent this component_id net w =
     (let url = ''/v1/components/'' @ to_string component_id in
      case axios_get (api this) url net w of
        (Inl e, w') \<Rightarrow> throw (createError url ''GET'' e w')
      | (Inr response, w') \<Rightarrow>
          (and_then (read_prop response ''data'') (\<lambda>d. read_prop d ''data''), w'))"

definition addComponent :: "client \<Rightarrow> jsval \<Rightarrow> net \<Rightarrow> world \<Rightarrow> outcome \<times> world" where
  "addComponent this component net w =
     (let url = ''/v1/components'' in
      case axios_post (api this) url component net w of
        (Inl e, w') \<Rightarrow> throw (createError url ''POST'' e w')
      | (Inr response, w') \<Rightarrow>
          (and_then (read_prop response ''data'') (\<lambda>d. read_prop d ''data''), w'))"

definition updateComponent :: "client \<Rightarrow> jsval \<Rightarrow> jsval \<Rightarrow> net \<Rightarrow> world \<Rightarrow> outcome \<times> world" where
  "updateComponent this component_id component net w =
     (let url = ''/v1/components/'' @ to_string component_id in
      case axios_put (api this) url component net w of
        (Inl e, w') \<Rightarrow> throw (createError url ''PUT'' e w')
      | (Inr response, w') \<Rightarrow>
          (and_then (read_prop response ''data'') (\<lambda>d. read_prop d ''data''), w'))"

definition deleteComponent :: "client \<Rightarrow> jsval \<Rightarrow> net \<Rightarrow> world \<Rightarrow> outcome \<times> world" where
  "deleteComponent this component_id net w =
     (let url = ''/v1/components/'' @ to_string component_id in
      case axios_delete (api this) url net w of
        (Inl e, w') \<Rightarrow> throw (createError url ''DELETE'' e w')
      | (Inr response, w') \<Rightarrow>
          (Inr (JBool True), w'))"

definition getComponentGroups :: "client \<Rightarrow> jsval \<Rightarrow> net \<Rightarrow> world \<Rightarrow> outcome \<times> world" where
  "getComponentGroups this with_meta net w =
     (let url = ''/v1/components/groups'' in
      case axios_get (api this) url net w of
        (Inl e, w') \<Rightarrow> throw (createError url ''GET'' e w')
      | (Inr response, w') \<Rightarrow>
          (if truthy with_meta then read_prop response ''data''
             else and_then (read_prop response ''data'') (\<lambda>d. read_prop d ''data''), w'))"

definition getComponentGroup :: "client \<Rightarrow> jsval \<Rightarrow> net \<Rightarrow> world \<Rightarrow> outcome \<times> world" where
  "getComponentGroup this group_id net w =
     (let url = ''/v1/components/groups/'' @ to_string group_id in
      case axios_get (api this) url net w of
        (Inl e, w') \<Rightarrow> throw (createError url ''GET'' e w')
      | (Inr response, w') \<Rightarrow>
          (and_then (read_prop response ''data'') (\<lambda>d. read_prop d ''data''), w'))"

definition addComponentGroup :: "client \<Rightarrow> jsval \<Rightarrow> net \<Rightarrow> world \<Rightarrow> outcome \<times> world" where
  "addComponentGroup this group' net w =
     (let url = ''/v1/components/groups'' in
      case axios_post (api this) url group' net w of
        (Inl e, w') \<Rightarrow> throw (createError url ''POST'' e w')
      | (Inr response, w') \<Rightarrow>
          (and_then (read_prop response ''data'') (\<lambda>d. read_prop d ''data''), w'))"

definition updateComponentGroup :: "client \<Rightarrow> jsval \<Rightarrow> jsval \<Rightarrow> net \<Rightarrow> world \<Rightarrow> outcome \<times> world" where
  "updateComponentGroup this group_id group' net w =
     (let url = ''/v1/components/groups/'' @ to_string group_id in
      case axios_put (api this) url group' net w of
        (Inl e, w') \<Rightarrow> throw (createError url ''PUT'' e w')
      | (Inr response, w') \<Rightarrow>
          (and_then (read_prop response ''data'') (\<lambda>d. read_prop d ''data''), w'))"

definition deleteComponentGroup :: "client \<Rightarrow> jsval \<Rightarrow> net \<Rightarrow> world \<Rightarrow> outcome \<times> world" where
  "deleteComponentGroup this group_id net w =
     (let url = ''/v1/components/groups/'' @ to_string group_id in
      case axios_delete (api this) url net w of
        (Inl e, w') \<Rightarrow> throw (createError url ''DELETE'' e w')
      | (Inr response, w') \<Rightarrow>
          (Inr (JBool True), w'))"

definition getIncidents :: "client \<Rightarrow> jsval \<Rightarrow> net \<Rightarrow> world \<Rightarrow> outcome \<times> world" where
  "getIncidents this with_meta net w =
     (let url = ''/v1/incidents'' in
      case axios_get (api this) url net w of
        (Inl e, w') \<Rightarrow> throw (createError url ''GET'' e w')
      | (Inr response, w') \<Rightarrow>
          (if truthy with_meta then read_prop response ''data''
             else and_then (read_prop response ''data'') (\<lambda>d. read_prop d ''data''), w'))"

definition getIncident :: "client \<Rightarrow> jsval \<Rightarrow> net \<Rightarrow> world \<Rightarrow> outcome \<times> world" where
  "getIncident this incident_id net w =
     (let url = ''/v1/incidents/'' @ to_string incident_id in
      case axios_get (api this) url net w of
        (Inl e, w') \<Rightarrow> throw (createError url ''GET'' e w')
      | (Inr response, w') \<Rightarrow>
          (and_then (read_prop response ''data'') (\<lambda>d. read_prop d ''data''), w'))"

definition addIncident :: "client \<Rightarrow> jsval \<Rightarrow> net \<Rightarrow> world \<Rightarrow> outcome \<times> world" where
  "addIncident this incident net w =
     (let url = ''/v1/incidents'' in
      case axios_post (api this) url incident net w of
        (Inl e, w') \<Rightarrow> throw (createError url ''POST'' e w')
      | (Inr response, w') \<Rightarrow>
          (and_then (read_prop response ''data'') (\<lambda>d. read_prop d ''data''), w'))"

definition updateIncident :: "client \<Rightarrow> jsval \<Rightarrow> jsval \<Rightarrow> net \<Rightarrow> world \<Rightarrow> outcome \<times> world" where
  "updateIncident this incident_id incident net w =
     (let url = ''/v1/incidents/'' @ to_string incident_id in
      case axios_put (api this) url incident net w of
        (Inl e, w') \<Rightarrow> throw (createError url ''PUT'' e w')
      | (Inr response, w') \<Rightarrow>
          (and_then (read_prop response ''data'') (\<lambda>d. read_prop d ''data''), w'))"

definition deleteIncident :: "client \<Rightarrow> jsval \<Rightarrow> net \<Rightarrow> world \<Rightarrow> outcome \<times> world" where
  "deleteIncident this incident_id net w =
     (let url = ''/v1/incidents/'' @ to_string incident_id in
      case axios_delete (api this) url net w of
        (Inl e, w') \<Rightarrow> throw (createError url ''DELETE'' e w')
      | (Inr response, w') \<Rightarrow>
          (Inr (JBool True), w'))"

definition getIncidentUpdates :: "client \<Rightarrow> jsval \<Rightarrow> jsval \<Rightarrow> net \<Rightarrow> world \<Rightarrow> outcome \<times> world" where
  "getIncidentUpdates this incident_id with_meta net w =
     (let url = ''/v1/incidents/'' @ to_string incident_id @ ''/updates'' in
      case axios_get (api this) url net w of
        (Inl e, w') \<Rightarrow> throw (createError url ''GET'' e w')
      | (Inr response, w') \<Rightarrow>
          (if truthy with_meta then read_prop response ''data''
             else and_then (read_prop response ''data'') (\<lambda>d. read_prop d ''data''), w'))"

definition getIncidentUpdate :: "client \<Rightarrow> jsval \<Rightarrow> jsval \<Rightarrow> net \<Rightarrow> world \<Rightarrow> outcome \<times> world" where
  "getIncidentUpdate this incident_id update_id net w =
     (let url = ''/v1/incidents/'' @ to_string incident_id @ ''/updates/'' @ to_string update_id in
      case axios_get (api this) url net w of
        (Inl e, w') \<Rightarrow> throw (createError url ''GET'' e w')
      | (Inr response, w') \<Rightarrow>
          (and_then (read_prop response ''data'') (\<lambda>d. read_prop d ''data''), w'))"

definition addIncidentUpdate :: "client \<Rightarrow> jsval \<Rightarrow> jsval \<Rightarrow> net \<Rightarrow> world \<Rightarrow> outcome \<times> world" where
  "addIncidentUpdate this incident_id update net w =
     (let url = ''/v1/incidents/'' @ to_string incident_id @ ''/updates'' in
      case axios_post (api this) url update net w of
        (Inl e, w') \<Rightarrow> throw (createError url ''POST'' e w')
      | (Inr response, w') \<Rightarrow>
          (and_then (read_prop response ''data'') (\<lambda>d. read_prop d ''data''), w'))"

definition updateIncidentUpdate :: "client \<Rightarrow> jsval \<Rightarrow> jsval \<Rightarrow> jsval \<Rightarrow> net \<Rightarrow> world \<Rightarrow> outcome \<times> world" where
  "updateIncidentUpdate this incident_id update_id update net w =
     (let url = ''/v1/incidents/'' @ to_string incident_id @ ''/updates/'' @ to_string update_id in
      case axios_put (api this) url update net w of
        (Inl e, w') \<Rightarrow> throw (createError url ''PUT'' e w')
      | (Inr response, w') \<Rightarrow>
          (and_then (read_prop response ''data'') (\<lambda>d. read_prop d ''data''), w'))"

definition deleteIncidentUpdate :: "client \<Rightarrow> jsval \<Rightarrow> jsval \<Rightarrow> net \<Rightarrow> world \<Rightarrow> outcome \<times> world" where
  "deleteIncidentUpdate this incident_id update_id net w =
     (let url = ''/v1/incidents/'' @ to_string incident_id @ ''/updates/'' @ to_string update_id in
      case axios_delete (api this) url net w of
        (Inl e, w') \<Rightarrow> throw (createError url ''DELETE'' e w')
      | (Inr response, w') \<Rightarrow>
          (Inr (JBool True), w'))"

definition getMetrics :: "client \<Rightarrow> jsval \<Rightarrow> net \<Rightarrow> world \<Rightarrow> outcome \<times> world" where
  "getMetrics this with_meta net w =
     (let url = ''/v1/metrics'' in
      case axios_get (api this) url net w of
        (Inl e, w') \<Rightarrow> throw (createError url ''GET'' e w')
      | (Inr response, w') \<Rightarrow>
          (if truthy with_meta then read_prop response ''data''
             else and_then (read_prop response ''data'') (\<lambda>d. read_prop d ''data''), w'))"

definition getMetric :: "client \<Rightarrow> jsval \<Rightarrow> net \<Rightarrow> world \<Rightarrow> outcome \<times> world" where
  "getMetric this metric_id net w =
     (let url = ''/v1/metrics/'' @ to_string metric_id in
      case axios_get (api this) url net w of
        (Inl e, w') \<Rightarrow> throw (createError url ''GET'' e w')
      | (Inr response, w') \<Rightarrow>
          (and_then (read_prop response ''data'') (\<lambda>d. read_prop d ''data''), w'))"

definition addMetric :: "client \<Rightarrow> jsval \<Rightarrow> net \<Rightarrow> world \<Rightarrow> outcome \<times> world" where
  "addMetric this metric net w =
     (let url = ''/v1/metrics'' in
      case axios_post (api this) url metric net w of
        (Inl e, w') \<Rightarrow> throw (createError url ''POST'' e w')
      | (Inr response, w') \<Rightarrow>
          (and_then (read_prop response ''data'') (\<lambda>d. read_prop d ''data''), w'))"

definition deleteMetric :: "client \<Rightarrow> jsval \<Rightarrow> net \<Rightarrow> world \<Rightarrow> outcome \<times> world" where
  "deleteMetric this metric_id net w =
     (let url = ''/v1/metrics/'' @ to_string metric_id in
      case axios_delete (api this) url net w of
        (Inl e, w') \<Rightarrow> throw (createError url ''DELETE'' e w')
      | (Inr response, w') \<Rightarrow>
          (Inr (JBool True), w'))"

definition getMetricPoints :: "client \<Rightarrow> jsval \<Rightarrow> net \<Rightarrow> world \<Rightarrow> outcome \<times> world" where
  "getMetricPoints this metric_id net w =
     (let url = ''/v1/metrics/'' @ to_string metric_id @ ''/points'' in
      case axios_get (api this) url net w of
        (Inl e, w') \<Rightarrow> throw (createError url ''GET'' e w')
      | (Inr response, w') \<Rightarrow>
          (and_then (read_prop response ''data'') (\<lambda>d. read_prop d ''data''), w'))"

definition addMetricPoint :: "client \<Rightarrow> jsval \<Rightarrow> jsval \<Rightarrow> net \<Rightarrow> world \<Rightarrow> outcome \<times> world" where
  "addMetricPoint this metric_id point net w =
     (let url = ''/v1/metrics/'' @ to_string metric_id @ ''/points'' in
      case axios_post (api this) url point net w of
        (Inl e, w') \<Rightarrow> throw (createError url ''POST'' e w')
      | (Inr response, w') \<Rightarrow>
          (and_then (read_prop response ''data'') (\<lambda>d. read_prop d ''data''), w'))"

definition deleteMetricPoint :: "client \<Rightarrow> jsval \<Rightarrow> jsval \<Rightarrow> net \<Rightarrow> world \<Rightarrow> outcome \<times> world" where
  "deleteMetricPoint this metric_id point_id net w =
     (let url = ''/v1/metrics/'' @ to_string metric_id @ ''/points/'' @ to_string point_id in
      case axios_delete (api this) url net w of
        (Inl e, w') \<Rightarrow> throw (createError url ''DELETE'' e w')
      | (Inr response, w') \<Rightarrow>
          (Inr (JBool True), w'))"

definition getSubscribers :: "client \<Rightarrow> net \<Rightarrow> world \<Rightarrow> outcome \<times> world" where
  "getSubscribers this net w =
     (let url = ''/v1/subscribers'' in
      case axios_get (api this) url net w of
        (Inl e, w') \<Rightarrow> throw (createError url ''GET'' e w')
      | (Inr response, w') \<Rightarrow>
          (and_then (read_prop response ''data'') (\<lambda>d. read_prop d ''data''), w'))"

definition addSubscriber :: "client \<Rightarrow> jsval \<Rightarrow> net \<Rightarrow> world \<Rightarrow> outcome \<times> world" where
  "addSubscriber this subscriber net w =
     (let url = ''/v1/subscribers'' in
      case axios_post (api this) url subscriber net w of
        (Inl e, w') \<Rightarrow> throw (createError url ''POST'' e w')
      | (Inr response, w') \<Rightarrow>
          (and_then (read_prop response ''data'') (\<lambda>d. read_prop d ''data''), w'))"

definition deleteSubscriber :: "client \<Rightarrow> jsval \<Rightarrow> net \<Rightarrow> world \<Rightarrow> outcome \<times> world" where
  "deleteSubscriber this subscriber_id net w =
     (let url = ''/v1/subscribers/'' @ to_string subscriber_id in
      case axios_delete (api this) url net w of
        (Inl e, w') \<Rightarrow> throw (createError url ''DELETE'' e w')
      | (Inr response, w') \<Rightarrow>
          (Inr (JBool True), w'))"

section \<open>Calling an operation\<close>

text \<open>
  A caller names a method and passes a list of arguments. JavaScript binds them to the
  parameters by position: a parameter with no argument is \<^verbatim>\<open>undefined\<close>, and an argument with
  no parameter is dropped.
\<close>

datatype operation =
    Ping
  | GetVersion
  | GetComponents
  | GetComponent
  | AddComponent
  | UpdateComponent
  | DeleteComponent
  | GetComponentGroups
  | GetComponentGroup
  | AddComponentGroup
  | UpdateComponentGroup
  | DeleteComponentGroup
  | GetIncidents
  | GetIncident
  | AddIncident
  | UpdateIncident
  | DeleteIncident
  | GetIncidentUpdates
  | GetIncidentUpdate
  | AddIncidentUpdate
  | UpdateIncidentUpdate
  | DeleteIncidentUpdate
  | GetMetrics
  | GetMetric
  | AddMetric
  | DeleteMetric
  | GetMetricPoints
  | AddMetricPoint
  | DeleteMetricPoint
  | GetSubscribers
  | AddSubscriber
  | DeleteSubscriber

definition arg :: "jsval list \<Rightarrow> nat \<Rightarrow> jsval" where
  "arg args i = (if i < length args then args ! i else JUndefined)"

fun invoke :: "client \<Rightarrow> operation \<Rightarrow> jsval list \<Rightarrow> net \<Rightarrow> world \<Rightarrow> outcome \<times> world" where
  "invoke this Ping args = ping this"
| "invoke this GetVersion args = getVersion this (arg args 0)"
| "invoke this GetComponents args = getComponents this (arg args 0)"
| "invoke this GetComponent args = getComponent this (arg args 0)"
| "invoke this AddComponent args = addComponent this (arg args 0)"
| "invoke this UpdateComponent args = updateComponent this (arg args 0) (arg args 1)"
| "invoke this DeleteComponent args = deleteComponent this (arg args 0)"
| "invoke this GetComponentGroups args = getComponentGroups this (arg args 0)"
| "invoke this GetComponentGroup args = getComponentGroup this (arg args 0)"
| "invoke this AddComponentGroup args = addComponentGroup this (arg args 0)"
| "invoke this UpdateComponentGroup args = updateComponentGroup this (arg args 0) (arg args 1)"
| "invoke this DeleteComponentGroup args = deleteComponentGroup this (arg args 0)"
| "invoke this GetIncidents args = getIncidents this (arg args 0)"
| "invoke this GetIncident args = getIncident this (arg args 0)"
| "invoke this AddIncident args = addIncident this (arg args 0)"
| "invoke this UpdateIncident args = updateIncident this (arg args 0) (arg args 1)"
| "invoke this DeleteIncident args = deleteIncident this (arg args 0)"
| "invoke this GetIncidentUpdates args = getIncidentUpdates this (arg args 0) (arg args 1)"
| "invoke this GetIncidentUpdate args = getIncidentUpdate this (arg args 0) (arg args 1)"
| "invoke this AddIncidentUpdate args = addIncidentUpdate this (arg args 0) (arg args 1)"
| "invoke this UpdateIncidentUpdate args = updateIncidentUpdate this (arg args 0) (arg args 1) (arg args 2)"
| "invoke this DeleteIncidentUpdate args = deleteIncidentUpdate this (arg args 0) (arg args 1)"
| "invoke this GetMetrics args = getMetrics this (arg args 0)"
| "invoke this GetMetric args = getMetric this (arg args 0)"
| "invoke this AddMetric args = addMetric this (arg args 0)"
| "invoke this DeleteMetric args = deleteMetric this (arg args 0)"
| "invoke this GetMetricPoints args = getMetricPoints this (arg args 0)"
| "invoke this AddMetricPoint args = addMetricPoint this (arg args 0) (arg args 1)"
| "invoke this DeleteMetricPoint args = deleteMetricPoint this (arg args 0) (arg args 1)"
| "invoke this GetSubscribers args = getSubscribers this"
| "invoke this AddSubscriber args = addSubscriber this (arg args 0)"
| "invoke this DeleteSubscriber args = deleteSubscriber this (arg args 0)"

text \<open>
  The endpoint table: the verb and the path of each operation. An id is interpolated into
  the path as the string it converts to.
\<close>

fun endpoint :: "operation \<Rightarrow> jsval list \<Rightarrow> string \<times> string" where
  "endpoint Ping args = (''GET'', ''/v1/ping'')"
| "endpoint GetVersion args = (''GET'', ''/v1/version'')"
| "endpoint GetComponents args = (''GET'', ''/v1/components'')"
| "endpoint GetComponent args = (''GET'', ''/v1/components/'' @ to_string (arg args 0))"
| "endpoint AddComponent args = (''POST'', ''/v1/components'')"
| "endpoint UpdateComponent args = (''PUT'', ''/v1/components/'' @ to_string (arg args 0))"
| "endpoint DeleteComponent args = (''DELETE'', ''/v1/components/'' @ to_string (arg args 0))"
| "endpoint GetComponentGroups args = (''GET'', ''/v1/components/groups'')"
| "endpoint GetComponentGroup args = (''GET'', ''/v1/components/groups/'' @ to_string (arg args 0))"
| "endpoint AddComponentGroup args = (''POST'', ''/v1/components/groups'')"
| "endpoint UpdateComponentGroup args = (''PUT'', ''/v1/components/groups/'' @ to_string (arg args 0))"
| "endpoint DeleteComponentGroup args = (''DELETE'', ''/v1/components/groups/'' @ to_string (arg args 0))"
| "endpoint GetIncidents args = (''GET'', ''/v1/incidents'')"
| "endpoint GetIncident args = (''GET'', ''/v1/incidents/'' @ to_string (arg args 0))"
| "endpoint AddIncident args = (''POST'', ''/v1/incidents'')"
| "endpoint UpdateIncident args = (''PUT'', ''/v1/incidents/'' @ to_string (arg args 0))"
| "endpoint DeleteIncident args = (''DELETE'', ''/v1/incidents/'' @ to_string (arg args 0))"
| "endpoint GetIncidentUpdates args = (''GET'', ''/v1/incidents/'' @ to_string (arg args 0) @ ''/updates'')"
| "endpoint GetIncidentUpdate args = (''GET'', ''/v1/incidents/'' @ to_string (arg args 0) @ ''/updates/'' @ to_string (arg args 1))"
| "endpoint AddIncidentUpdate args = (''POST'', ''/v1/incidents/'' @ to_string (arg args 0) @ ''/updates'')"
| "endpoint UpdateIncidentUpdate args = (''PUT'', ''/v1/incidents/'' @ to_string (arg args 0) @ ''/updates/'' @ to_string (arg args 1))"
| "endpoint DeleteIncidentUpdate args = (''DELETE'', ''/v1/incidents/'' @ to_string (arg args 0) @ ''/updates/'' @ to_string (arg args 1))"
| "endpoint GetMetrics args = (''GET'', ''/v1/metrics'')"
| "endpoint GetMetric args = (''GET'', ''/v1/metrics/'' @ to_string (arg args 0))"
| "endpoint AddMetric args = (''POST'', ''/v1/metrics'')"
| "endpoint DeleteMetric args = (''DELETE'', ''/v1/metrics/'' @ to_string (arg args 0))"
| "endpoint GetMetricPoints args = (''GET'', ''/v1/metrics/'' @ to_string (arg args 0) @ ''/points'')"
| "endpoint AddMetricPoint args = (''POST'', ''/v1/metrics/'' @ to_string (arg args 0) @ ''/points'')"
| "endpoint DeleteMetricPoint args = (''DELETE'', ''/v1/metrics/'' @ to_string (arg args 0) @ ''/points/'' @ to_string (arg args 1))"
| "endpoint GetSubscribers args = (''GET'', ''/v1/subscribers'')"
| "endpoint AddSubscriber args = (''POST'', ''/v1/subscribers'')"
| "endpoint DeleteSubscriber args = (''DELETE'', ''/v1/subscribers/'' @ to_string (arg args 0))"

text \<open>The record sent with a create or an update; the other operations send none.\<close>

fun sent_record :: "operation \<Rightarrow> jsval list \<Rightarrow> jsval option" where
  "sent_record Ping args = None"
| "sent_record GetVersion args = None"
| "sent_record GetComponents args = None"
| "sent_record GetComponent args = None"
| "sent_record AddComponent args = Some (arg args 0)"
| "sent_record UpdateComponent args = Some (arg args 1)"
| "sent_record DeleteComponent args = None"
| "sent_record GetComponentGroups args = None"
| "sent_record GetComponentGroup args = None"
| "sent_record AddComponentGroup args = Some (arg args 0)"
| "sent_record UpdateComponentGroup args = Some (arg args 1)"
| "sent_record DeleteComponentGroup args = None"
| "sent_record GetIncidents args = None"
| "sent_record GetIncident args = None"
| "sent_record AddIncident args = Some (arg args 0)"
| "sent_record UpdateIncident args = Some (arg args 1)"
| "sent_record DeleteIncident args = None"
| "sent_record GetIncidentUpdates args = None"
| "sent_record GetIncidentUpdate args = None"
| "sent_record AddIncidentUpdate args = Some (arg args 1)"
| "sent_record UpdateIncidentUpdate args = Some (arg args 2)"
| "sent_record DeleteIncidentUpdate args = None"
| "sent_record GetMetrics args = None"
| "sent_record GetMetric args = None"
| "sent_record AddMetric args = Some (arg args 0)"
| "sent_record DeleteMetric args = None"
| "sent_record GetMetricPoints args = None"
| "sent_record AddMetricPoint args = Some (arg args 1)"
| "sent_record DeleteMetricPoint args = None"
| "sent_record GetSubscribers args = None"
| "sent_record AddSubscriber args = Some (arg args 0)"
| "sent_record DeleteSubscriber args = None"

text \<open>
  The request of an operation, and below what it makes of a resolved response. Lemma
  \<open>invoke_unfold\<close> shows that each method above issues this request and ends this way.
\<close>

definition issued :: "client \<Rightarrow> operation \<Rightarrow> jsval list \<Rightarrow> request" where
  "issued this op args =
     \<lparr>verb = fst (endpoint op args), path = snd (endpoint op args),
      payload = sent_record op args,
      base = baseURL (api this), hdrs = headers (api this)\<rparr>"

text \<open>The three ways an operation ends once its call has resolved.\<close>

definition unwrap_both :: "jsval \<Rightarrow> outcome" where
  "unwrap_both response = and_then (read_prop response ''data'') (\<lambda>d. read_prop d ''data'')"

definition unwrap_unless :: "jsval \<Rightarrow> jsval \<Rightarrow> outcome" where
  "unwrap_unless with_meta response =
     (if truthy with_meta then read_prop response ''data'' else unwrap_both response)"

fun returned :: "operation \<Rightarrow> jsval list \<Rightarrow> jsval \<Rightarrow> outcome" where
  "returned Ping args response = unwrap_both response"
| "returned GetVersion args response = unwrap_unless (arg args 0) response"
| "returned GetComponents args response = unwrap_unless (arg args 0) response"
| "returned GetComponent args response = unwrap_both response"
| "returned AddComponent args response = unwrap_both response"
| "returned UpdateComponent args response = unwrap_both response"
| "returned DeleteComponent args response = Inr (JBool True)"
| "returned GetComponentGroups args response = unwrap_unless (arg args 0) response"
| "returned GetComponentGroup args response = unwrap_both response"
| "returned AddComponentGroup args response = unwrap_both response"
| "returned UpdateComponentGroup args response = unwrap_both response"
| "returned DeleteComponentGroup args response = Inr (JBool True)"
| "returned GetIncidents args response = unwrap_unless (arg args 0) response"
| "returned GetIncident args response = unwrap_both response"
| "returned AddIncident args response = unwrap_both response"
| "returned UpdateIncident args response = unwrap_both response"
| "returned DeleteIncident args response = Inr (JBool True)"
| "returned GetIncidentUpdates args response = unwrap_unless (arg args 1) response"
| "returned GetIncidentUpdate args response = unwrap_both response"
| "returned AddIncidentUpdate args response = unwrap_both response"
| "returned UpdateIncidentUpdate args response = unwrap_both response"
| "returned DeleteIncidentUpdate args response = Inr (JBool True)"
| "returned GetMetrics args response = unwrap_unless (arg args 0) response"
| "returned GetMetric args response = unwrap_both response"
| "returned AddMetric args response = unwrap_both response"
| "returned DeleteMetric args response = Inr (JBool True)"
| "returned GetMetricPoints args response = unwrap_both response"
| "returned AddMetricPoint args response = unwrap_both response"
| "returned DeleteMetricPoint args response = Inr (JBool True)"
| "returned GetSubscribers args response = unwrap_both response"
| "returned AddSubscriber args response = unwrap_both response"
| "returned DeleteSubscriber args response = Inr (JBool True)"

definition after_request :: "client \<Rightarrow> operation \<Rightarrow> jsval list \<Rightarrow> world \<Rightarrow> world" where
  "after_request this op args w = w\<lparr>sent := sent w @ [issued this op args]\<rparr>"

section \<open>The diagnostic of a failed request\<close>

text \<open>
  The three pieces of the diagnostic text, read off a response object: the status code, the
  status text and the serialized body, each one empty when the field is missing (or
  otherwise falsy).
\<close>

definition status_part :: "jsval \<Rightarrow> string" where
  "status_part r =
     (if truthy (own_property r ''status'') then to_string (own_property r ''status'') @ '' ''
      else [])"

definition status_text_part :: "jsval \<Rightarrow> string" where
  "status_text_part r =
     (if truthy (own_property r ''statusText'')
      then to_string (own_property r ''statusText'') @ '' | '' else [])"

definition body_part :: "jsval \<Rightarrow> string" where
  "body_part r =
     (if truthy (own_property r ''data'') then to_string (JSON_stringify (own_property r ''data''))
      else [])"

definition diagnostic :: "jsval \<Rightarrow> string" where
  "diagnostic r = status_part r @ status_text_part r @ body_part r"

section \<open>Sample data\<close>

text \<open>
  The client of the repository's tests, an empty world, and results of the kind the network
  hands back: a rejection carrying a 404 response, a rejection without any response, and
  resolved responses.
\<close>

definition demo_client :: client where
  "demo_client =
     \<lparr>options = JObj [(''url'', JStr ''https://demo.cachethq.io/api''),
                      (''apiToken'', JStr ''9yMHsdioQosnyVK4iCVR'')],
      api = axios_create (JStr ''https://demo.cachethq.io/api'')
              [(''X-Cachet-Token'', JStr ''9yMHsdioQosnyVK4iCVR'')]\<rparr>"

definition world0 :: world where
  "world0 = \<lparr>sent = [], console = []\<rparr>"

definition not_found_response :: jsval where
  "not_found_response =
     JObj [(''status'', JNum 404), (''statusText'', JStr ''Not Found''),
           (''data'', JObj [(''errors'', JArr [])])]"

definition not_found :: thrown where
  "not_found =
     ErrorObject ''Error'' ''Request failed with status code 404''
       [(''response'', not_found_response)]"

definition network_error :: thrown where
  "network_error = ErrorObject ''Error'' ''Network Error'' []"

definition rejecting :: "thrown \<Rightarrow> net" where
  "rejecting e = (\<lambda>history rq. Inl e)"

definition resolving :: "jsval \<Rightarrow> net" where
  "resolving response = (\<lambda>history rq. Inr response)"

definition ok_response :: "jsval \<Rightarrow> jsval" where
  "ok_response b = JObj [(''status'', JNum 200), (''statusText'', JStr ''OK''), (''data'', b)]"

definition list_envelope :: jsval where
  "list_envelope =
     JObj [(''meta'', JObj [(''pagination'', JObj [(''total'', JNum 1), (''count'', JNum 1)])]),
           (''data'', JArr [JObj [(''id'', JNum 1)]])]"

section \<open>Every operation is one call and one continuation\<close>

lemmas operation_defs =
  ping_def getVersion_def getComponents_def getComponent_def
  addComponent_def updateComponent_def deleteComponent_def getComponentGroups_def
  getComponentGroup_def addComponentGroup_def updateComponentGroup_def deleteComponentGroup_def
  getIncidents_def getIncident_def addIncident_def updateIncident_def
  deleteIncident_def getIncidentUpdates_def getIncidentUpdate_def addIncidentUpdate_def
  updateIncidentUpdate_def deleteIncidentUpdate_def getMetrics_def getMetric_def
  addMetric_def deleteMetric_def getMetricPoints_def addMetricPoint_def
  deleteMetricPoint_def getSubscribers_def addSubscriber_def deleteSubscriber_def

lemmas axios_defs = axios_get_def axios_post_def axios_put_def axios_delete_def axios_request_def

lemma invoke_unfold:
  "invoke this op args net w =
     (case net (sent w) (issued this op args) of
        Inl e \<Rightarrow>
          throw (createError (snd (endpoint op args)) (fst (endpoint op args)) e
                   (after_request this op args w))
      | Inr response \<Rightarrow> (returned op args response, after_request this op args w))"
  by (cases op)
     (simp_all add: operation_defs axios_defs issued_def after_request_def unwrap_both_def
        unwrap_unless_def Let_def split: sum.splits)

section \<open>Property reads and error normalization\<close>

lemma read_prop_not_nullish:
  "v \<noteq> JUndefined \<Longrightarrow> v \<noteq> JNull \<Longrightarrow> read_prop v k = Inr (own_property v k)"
  by (simp add: read_prop_def)

lemma truthy_not_nullish: "truthy v \<Longrightarrow> v \<noteq> JUndefined \<and> v \<noteq> JNull"
  by (cases v) simp_all

lemma read_prop_truthy: "truthy v \<Longrightarrow> read_prop v k = Inr (own_property v k)"
  using truthy_not_nullish [of v] by (simp add: read_prop_not_nullish)

lemma truthy_property_is_object: "truthy (own_property v k) \<Longrightarrow> \<exists>kvs. v = JObj kvs"
  by (cases v) simp_all

lemma extra_of_response_truthy: "truthy r \<Longrightarrow> extra_of_response r = Inr (diagnostic r)"
  by (simp add: extra_of_response_def read_prop_truthy and_then_def diagnostic_def
      status_part_def status_text_part_def body_part_def Let_def)

lemma thrown_with_response_truthy:
  assumes "thrown_read_prop e ''response'' = Inr r" and "truthy r"
  shows "thrown_truthy e"
proof (cases e)
  case (Value v)
  with assms have "v \<noteq> JUndefined \<and> v \<noteq> JNull \<and> r = own_property v ''response''"
    by (auto simp: read_prop_def split: if_splits)
  with assms(2) obtain kvs where "v = JObj kvs"
    using truthy_property_is_object by blast
  with Value show ?thesis by simp
next
  case (ErrorObject n m ps)
  then show ?thesis by simp
qed

lemma createError_with_response:
  assumes "thrown_read_prop e ''response'' = Inr r" and "truthy r"
  shows "createError url type e w =
           (Inr (new_request_error type url (diagnostic r)), w\<lparr>console := console w @ [e]\<rparr>)"
  using assms thrown_with_response_truthy [OF assms]
  by (simp add: createError_def and_then_def extra_of_response_truthy Let_def)

lemma toString_not_nullish:
  assumes "thrown_read_prop e k = Inr r"
  shows "\<exists>s. toString e = Inr s"
proof (cases e)
  case (Value v)
  with assms show ?thesis by (auto simp: read_prop_def split: if_splits)
next
  case (ErrorObject n m ps)
  then show ?thesis by simp
qed

lemma createError_without_response:
  assumes "thrown_read_prop e ''response'' = Inr r" and "\<not> truthy r" and "toString e = Inr s"
  shows "createError url type e w =
           (Inr (new_request_error type url s), w\<lparr>console := console w @ [e]\<rparr>)"
  using assms by (simp add: createError_def and_then_def Let_def)

lemma createError_nullish:
  assumes "e = Value JUndefined \<or> e = Value JNull"
  shows "\<exists>v. createError url type e w = (Inl (type_error v ''toString''), w)"
  using assms by (auto simp: createError_def and_then_def Let_def)

lemma sent_createError: "sent (snd (createError url type e w)) = sent w"
  by (simp add: createError_def Let_def split: sum.splits)

lemma sent_throw: "sent (snd (throw r)) = sent (snd r)"
  by (simp add: throw_def split: sum.splits)

lemma throw_Inr: "throw (Inr x, w) = (Inl x, w)"
  by (simp add: throw_def)

lemma throw_Inl: "throw (Inl x, w) = (Inl x, w)"
  by (simp add: throw_def)

lemma type_error_not_request_error: "type_error v k \<noteq> new_request_error type url x"
  by (simp add: type_error_def new_request_error_def)

lemma returned_cases:
  "returned op args response = Inr (JBool True)
   \<or> returned op args response = unwrap_both response
   \<or> returned op args response = read_prop response ''data''"
  by (cases op) (simp_all add: unwrap_unless_def)

lemma read_prop_cases: "(\<exists>v. read_prop x k = Inr v) \<or> read_prop x k = Inl (type_error x k)"
  by (simp add: read_prop_def)

lemma unwrap_both_cases:
  "(\<exists>v. unwrap_both response = Inr v) \<or> (\<exists>x. unwrap_both response = Inl (type_error x ''data''))"
  by (auto simp: unwrap_both_def and_then_def read_prop_def split: sum.splits)

lemma returned_not_request_error: "returned op args response \<noteq> Inl (new_request_error type url x)"
  using returned_cases [of op args response] read_prop_cases [of response "''data''"]
    unwrap_both_cases [of response] type_error_not_request_error
  by (metis Inl_Inr_False sum.inject(1))

lemma sent_invoke: "sent (snd (invoke this op args net w)) = sent w @ [issued this op args]"
  by (simp add: invoke_unfold sent_throw sent_createError after_request_def split: sum.splits)

lemma invoke_resolved:
  assumes "net (sent w) (issued this op args) = Inr response"
  shows "invoke this op args net w = (returned op args response, after_request this op args w)"
  using assms by (simp add: invoke_unfold)

lemma invoke_rejected:
  assumes "net (sent w) (issued this op args) = Inl e"
  shows "invoke this op args net w =
           throw (createError (snd (endpoint op args)) (fst (endpoint op args)) e
                    (after_request this op args w))"
  using assms by (simp add: invoke_unfold)



lemmas sample_defs = demo_client_def world0_def not_found_response_def not_found_def
  network_error_def rejecting_def resolving_def ok_response_def list_envelope_def

lemmas eval_defs = sample_defs issued_def arg_def axios_create_def
  status_part_def status_text_part_def body_part_def number_to_string_def digits.simps
  JSON_stringify_def json_quote_def json_escape_def read_prop_def

lemma invoke_rejected_result:
  assumes "net (sent w) (issued this op args) = Inl e"
    and "e \<noteq> Value JUndefined" and "e \<noteq> Value JNull"
  shows "\<exists>x. invoke this op args net w =
               (Inl (new_request_error (fst (endpoint op args)) (snd (endpoint op args)) x),
                w\<lparr>sent := sent w @ [issued this op args], console := console w @ [e]\<rparr>)"
proof -
  have inv: "invoke this op args net w =
               throw (createError (snd (endpoint op args)) (fst (endpoint op args)) e
                        (after_request this op args w))"
    using assms(1) by (rule invoke_rejected)
  obtain r where r: "thrown_read_prop e ''response'' = Inr r"
    using assms(2,3) by (cases e) (auto simp: read_prop_def)
  then obtain s where s: "toString e = Inr s"
    using toString_not_nullish by blast
  show ?thesis
  proof (cases "truthy r")
    case True
    then show ?thesis
      by (intro exI [of _ "diagnostic r"])
         (simp add: inv createError_with_response [OF r] throw_Inr after_request_def)
  next
    case False
    then show ?thesis
      by (intro exI [of _ s])
         (simp add: inv createError_without_response [OF r False s] throw_Inr after_request_def)
  qed
qed

lemma invoke_rejected_nullish:
  assumes "net (sent w) (issued this op args) = Inl e"
    and "e = Value JUndefined \<or> e = Value JNull"
  shows "\<exists>v. fst (invoke this op args net w) = Inl (type_error v ''toString'')"
proof -
  have inv: "invoke this op args net w =
               throw (createError (snd (endpoint op args)) (fst (endpoint op args)) e
                        (after_request this op args w))"
    using assms(1) by (rule invoke_rejected)
  obtain v where "createError (snd (endpoint op args)) (fst (endpoint op args)) e
                    (after_request this op args w)
                  = (Inl (type_error v ''toString''), after_request this op args w)"
    using createError_nullish [OF assms(2)] by blast
  then show ?thesis by (auto simp: inv throw_Inl)
qed

lemma returned_failure:
  assumes "returned op args response = Inl t"
  shows "\<exists>x. t = type_error x ''data''"
  using assms returned_cases [of op args response] read_prop_cases [of response "''data''"]
    unwrap_both_cases [of response]
  by auto

lemma unwrap_both_without_data_key:
  assumes "read_prop response ''data'' = Inr body" and "body \<noteq> JUndefined" and "body \<noteq> JNull"
    and "own_property body ''data'' = JUndefined"
  shows "unwrap_both response = Inr JUndefined"
  using assms by (simp add: unwrap_both_def and_then_def read_prop_def)

lemma unwrap_unless_without_data_key:
  assumes "read_prop response ''data'' = Inr body" and "body \<noteq> JUndefined" and "body \<noteq> JNull"
    and "own_property body ''data'' = JUndefined"
  shows "unwrap_unless flag response = (if truthy flag then Inr body else Inr JUndefined)"
  using assms unwrap_both_without_data_key [OF assms] by (simp add: unwrap_unless_def)

section \<open>Construction\<close>

text \<open>
  Claim C5. Constructing a client throws exactly when the options object is absent, or its
  base URL is missing or the empty string. Construction sends no request (it leaves the
  world as it was), and a constructed client is bound to the given base URL and carries the
  token as the header \<^verbatim>\<open>X-Cachet-Token\<close> of every request it issues. The options are
  \<^verbatim>\<open>undefined\<close>, \<^verbatim>\<open>null\<close> or an object, and the url, when given, is a string.
\<close>

theorem constructor_requires_url:
  assumes "opts = JUndefined \<or> opts = JNull \<or> (\<exists>kvs. opts = JObj kvs)"
    and "own_property opts ''url'' = JUndefined \<or> (\<exists>u. own_property opts ''url'' = JStr u)"
  shows "(opts = JUndefined \<or> opts = JNull \<or> own_property opts ''url'' = JUndefined
            \<or> own_property opts ''url'' = JStr []
          \<longrightarrow> fst (constructor opts w) = Inl required_option_error)
       \<and> (\<not> (opts = JUndefined \<or> opts = JNull \<or> own_property opts ''url'' = JUndefined
               \<or> own_property opts ''url'' = JStr [])
          \<longrightarrow> fst (constructor opts w) =
                Inr \<lparr>options = opts,
                     api = \<lparr>baseURL = own_property opts ''url'',
                            headers = [(''X-Cachet-Token'', own_property opts ''apiToken'')]\<rparr>\<rparr>)
       \<and> snd (constructor opts w) = w
       \<and> (\<forall>c op args. fst (constructor opts w) = Inr c
          \<longrightarrow> base (issued c op args) = own_property opts ''url''
              \<and> hdrs (issued c op args) = [(''X-Cachet-Token'', own_property opts ''apiToken'')])"
proof -
  have unchanged: "snd (constructor opts w) = w"
    by (simp add: constructor_def split: sum.splits)
  have throws: "fst (constructor opts w) = Inl required_option_error"
    if "opts = JUndefined \<or> opts = JNull \<or> own_property opts ''url'' = JUndefined
          \<or> own_property opts ''url'' = JStr []"
    using that by (auto simp: constructor_def read_prop_def split: sum.splits)
  have builds: "fst (constructor opts w) =
                  Inr \<lparr>options = opts,
                       api = \<lparr>baseURL = own_property opts ''url'',
                              headers = [(''X-Cachet-Token'', own_property opts ''apiToken'')]\<rparr>\<rparr>"
    if "\<not> (opts = JUndefined \<or> opts = JNull \<or> own_property opts ''url'' = JUndefined
              \<or> own_property opts ''url'' = JStr [])"
  proof -
    from that assms(1) obtain kvs where "opts = JObj kvs" by blast
    moreover from that assms(2) obtain u where "own_property opts ''url'' = JStr u" and "u \<noteq> []"
      by blast
    ultimately show ?thesis
      by (simp add: constructor_def read_prop_def and_then_def axios_create_def)
  qed
  have bound: "base (issued c op args) = own_property opts ''url''
                 \<and> hdrs (issued c op args) = [(''X-Cachet-Token'', own_property opts ''apiToken'')]"
    if "fst (constructor opts w) = Inr c" for c op args
  proof (cases "opts = JUndefined \<or> opts = JNull \<or> own_property opts ''url'' = JUndefined
                  \<or> own_property opts ''url'' = JStr []")
    case True
    then show ?thesis using throws that by simp
  next
    case False
    then show ?thesis using builds that by (auto simp: issued_def)
  qed
  show ?thesis using unchanged throws builds bound by blast
qed

theorem constructor_requires_url_witness:
  "fst (constructor (JObj [(''apiToken'', JStr ''9yMHsdioQosnyVK4iCVR'')]) world0)
     = Inl required_option_error
   \<and> fst (constructor (JObj [(''url'', JStr '''')]) world0) = Inl required_option_error
   \<and> fst (constructor (options demo_client) world0) = Inr demo_client
   \<and> snd (constructor (options demo_client) world0) = world0"
  using constructor_requires_url [of "JObj [(''apiToken'', JStr ''9yMHsdioQosnyVK4iCVR'')]" world0]
    constructor_requires_url [of "JObj [(''url'', JStr '''')]" world0]
    constructor_requires_url [of "options demo_client" world0]
  by (simp add: demo_client_def axios_create_def)

section \<open>Requests\<close>

text \<open>
  Claim C6. Every operation issues exactly one HTTP request, with the method and the path of
  the endpoint table. In particular the component-group operations go to
  \<^verbatim>\<open>/v1/components/groups[/:id]\<close> with GET, GET, POST, PUT and DELETE, and the
  incident-update operations go to \<^verbatim>\<open>/v1/incidents/:incident_id/updates[/:id]\<close>, with the
  parent incident id and, where there is one, the update id interpolated.
\<close>

theorem one_request_per_endpoint_table:
  "sent (snd (invoke this op args net w)) =
     sent w @ [\<lparr>verb = fst (endpoint op args), path = snd (endpoint op args),
                payload = sent_record op args,
                base = baseURL (api this), hdrs = headers (api this)\<rparr>]
   \<and> endpoint GetComponentGroups args = (''GET'', ''/v1/components/groups'')
   \<and> endpoint GetComponentGroup (gid # rest) = (''GET'', ''/v1/components/groups/'' @ to_string gid)
   \<and> endpoint AddComponentGroup args = (''POST'', ''/v1/components/groups'')
   \<and> endpoint UpdateComponentGroup (gid # rest) =
        (''PUT'', ''/v1/components/groups/'' @ to_string gid)
   \<and> endpoint DeleteComponentGroup (gid # rest) =
        (''DELETE'', ''/v1/components/groups/'' @ to_string gid)
   \<and> endpoint GetIncidentUpdates (iid # rest) =
        (''GET'', ''/v1/incidents/'' @ to_string iid @ ''/updates'')
   \<and> endpoint GetIncidentUpdate (iid # uid # rest) =
        (''GET'', ''/v1/incidents/'' @ to_string iid @ ''/updates/'' @ to_string uid)
   \<and> endpoint AddIncidentUpdate (iid # rest) =
        (''POST'', ''/v1/incidents/'' @ to_string iid @ ''/updates'')
   \<and> endpoint UpdateIncidentUpdate (iid # uid # rest) =
        (''PUT'', ''/v1/incidents/'' @ to_string iid @ ''/updates/'' @ to_string uid)
   \<and> endpoint DeleteIncidentUpdate (iid # uid # rest) =
        (''DELETE'', ''/v1/incidents/'' @ to_string iid @ ''/updates/'' @ to_string uid)"
proof -
  have "sent (snd (invoke this op args net w)) = sent w @ [issued this op args]"
    by (rule sent_invoke)
  then show ?thesis
    by (simp add: issued_def arg_def)
qed

theorem one_request_per_endpoint_table_witness:
  "sent (snd (invoke demo_client UpdateIncidentUpdate
                [JNum 3, JNum 12, JObj [(''message'', JStr ''fixed''), (''status'', JNum 4)]]
                (rejecting network_error) world0)) =
     [\<lparr>verb = ''PUT'', path = ''/v1/incidents/3/updates/12'',
       payload = Some (JObj [(''message'', JStr ''fixed''), (''status'', JNum 4)]),
       base = JStr ''https://demo.cachethq.io/api'',
       hdrs = [(''X-Cachet-Token'', JStr ''9yMHsdioQosnyVK4iCVR'')]\<rparr>]"
  using one_request_per_endpoint_table
          [of demo_client UpdateIncidentUpdate
              "[JNum 3, JNum 12, JObj [(''message'', JStr ''fixed''), (''status'', JNum 4)]]"
              "rejecting network_error" world0]
  by (simp add: eval_defs)

section \<open>What an operation returns\<close>

text \<open>
  Claim C2. For each of the seven delete operations and every id: if the HTTP call does not
  throw, the operation returns \<^verbatim>\<open>true\<close>, whatever the response is; neither its status code
  nor its body is looked at.
\<close>

theorem delete_returns_true:
  assumes "op \<in> {DeleteComponent, DeleteComponentGroup, DeleteIncident, DeleteIncidentUpdate,
                  DeleteMetric, DeleteMetricPoint, DeleteSubscriber}"
    and "net (sent w) (issued this op args) = Inr response"
  shows "fst (invoke this op args net w) = Inr (JBool True)"
proof -
  have "returned op args response = Inr (JBool True)"
    using assms(1) by auto
  moreover have "invoke this op args net w = (returned op args response, after_request this op args w)"
    using assms(2) by (rule invoke_resolved)
  ultimately show ?thesis by simp
qed

theorem delete_returns_true_witness:
  "DeleteComponent \<in> {DeleteComponent, DeleteComponentGroup, DeleteIncident, DeleteIncidentUpdate,
                       DeleteMetric, DeleteMetricPoint, DeleteSubscriber}
   \<and> resolving (JObj [(''status'', JNum 500), (''data'', JStr ''Internal Server Error'')])
        (sent world0) (issued demo_client DeleteComponent [JNum 7])
       = Inr (JObj [(''status'', JNum 500), (''data'', JStr ''Internal Server Error'')])
   \<and> fst (invoke demo_client DeleteComponent [JNum 7]
             (resolving (JObj [(''status'', JNum 500), (''data'', JStr ''Internal Server Error'')]))
             world0) = Inr (JBool True)"
  using delete_returns_true
          [of DeleteComponent
              "resolving (JObj [(''status'', JNum 500), (''data'', JStr ''Internal Server Error'')])"
              world0 demo_client "[JNum 7]"
              "JObj [(''status'', JNum 500), (''data'', JStr ''Internal Server Error'')]"]
  by (simp add: resolving_def)

text \<open>
  Claim C4. \<^verbatim>\<open>ping\<close> and every operation on a single record (get, create, update) return what
  lies two levels down in the response: the \<^verbatim>\<open>data\<close> of the \<^verbatim>\<open>data\<close> of the response. In
  particular \<^verbatim>\<open>ping\<close> returns the string \<^verbatim>\<open>"Pong!"\<close> when that is the payload.
\<close>

theorem single_record_unwraps_two_levels:
  assumes "op \<in> {Ping, GetComponent, AddComponent, UpdateComponent,
                  GetComponentGroup, AddComponentGroup, UpdateComponentGroup,
                  GetIncident, AddIncident, UpdateIncident,
                  GetIncidentUpdate, AddIncidentUpdate, UpdateIncidentUpdate,
                  GetMetric, AddMetric, AddMetricPoint, AddSubscriber}"
    and "net (sent w) (issued this op args) = Inr response"
    and "read_prop response ''data'' = Inr envelope"
    and "read_prop envelope ''data'' = Inr inner"
  shows "fst (invoke this op args net w) = Inr inner
       \<and> (op = Ping \<and> inner = JStr ''Pong!'' \<longrightarrow> fst (ping this net w) = Inr (JStr ''Pong!''))"
proof -
  have "returned op args response = unwrap_both response"
    using assms(1) by auto
  moreover have "unwrap_both response = Inr inner"
    using assms(3,4) by (simp add: unwrap_both_def and_then_def)
  moreover have "invoke this op args net w = (returned op args response, after_request this op args w)"
    using assms(2) by (rule invoke_resolved)
  ultimately have "fst (invoke this op args net w) = Inr inner" by simp
  then show ?thesis by auto
qed

theorem single_record_unwraps_two_levels_witness:
  "Ping \<in> {Ping, GetComponent, AddComponent, UpdateComponent,
            GetComponentGroup, AddComponentGroup, UpdateComponentGroup,
            GetIncident, AddIncident, UpdateIncident,
            GetIncidentUpdate, AddIncidentUpdate, UpdateIncidentUpdate,
            GetMetric, AddMetric, AddMetricPoint, AddSubscriber}
   \<and> resolving (ok_response (JObj [(''data'', JStr ''Pong!'')])) (sent world0)
        (issued demo_client Ping []) = Inr (ok_response (JObj [(''data'', JStr ''Pong!'')]))
   \<and> read_prop (ok_response (JObj [(''data'', JStr ''Pong!'')])) ''data''
       = Inr (JObj [(''data'', JStr ''Pong!'')])
   \<and> read_prop (JObj [(''data'', JStr ''Pong!'')]) ''data'' = Inr (JStr ''Pong!'')
   \<and> fst (ping demo_client (resolving (ok_response (JObj [(''data'', JStr ''Pong!'')]))) world0)
       = Inr (JStr ''Pong!'')"
  using single_record_unwraps_two_levels
          [of Ping "resolving (ok_response (JObj [(''data'', JStr ''Pong!'')]))" world0 demo_client
              "[]" "ok_response (JObj [(''data'', JStr ''Pong!'')])"
              "JObj [(''data'', JStr ''Pong!'')]" "JStr ''Pong!''"]
  by (simp add: resolving_def ok_response_def read_prop_def)

text \<open>
  Claim C9. For the six operations that take the raw-envelope flag, the flag is tested for
  truthiness, not compared with \<^verbatim>\<open>true\<close>: with a truthy flag (a nonzero number, a nonempty
  string, an object) the operation returns the \<^verbatim>\<open>data\<close> of the response, the raw envelope;
  with a falsy flag (\<^verbatim>\<open>false\<close>, \<^verbatim>\<open>undefined\<close>, \<^verbatim>\<open>null\<close>, 0, the empty string) it returns the
  \<^verbatim>\<open>data\<close> of that envelope.
\<close>

theorem raw_mode_by_truthiness:
  assumes "(op \<in> {GetVersion, GetComponents, GetComponentGroups, GetIncidents, GetMetrics}
              \<and> args = flag # rest)
           \<or> (op = GetIncidentUpdates \<and> args = incident_id # flag # rest)"
    and "net (sent w) (issued this op args) = Inr response"
    and "read_prop response ''data'' = Inr envelope"
  shows "fst (invoke this op args net w) =
           (if truthy flag then Inr envelope else read_prop envelope ''data'')
       \<and> truthy (JNum 1) \<and> truthy (JStr ''yes'') \<and> truthy (JObj [])
       \<and> (truthy (JNum n) = (n \<noteq> 0)) \<and> (truthy (JStr s) = (s \<noteq> []))
       \<and> \<not> truthy (JBool False) \<and> \<not> truthy JUndefined \<and> \<not> truthy JNull
       \<and> \<not> truthy (JNum 0) \<and> \<not> truthy (JStr [])"
proof -
  have "returned op args response = unwrap_unless flag response"
    using assms(1) by (auto simp: arg_def)
  moreover have "unwrap_unless flag response =
                   (if truthy flag then Inr envelope else read_prop envelope ''data'')"
    using assms(3) by (simp add: unwrap_unless_def unwrap_both_def and_then_def)
  moreover have "invoke this op args net w = (returned op args response, after_request this op args w)"
    using assms(2) by (rule invoke_resolved)
  ultimately show ?thesis by simp
qed

theorem raw_mode_by_truthiness_witness:
  "resolving (ok_response (JObj [(''meta'', JObj [(''on_latest'', JBool True)]),
                                 (''data'', JStr ''2.4.0-dev'')]))
      (sent world0) (issued demo_client GetVersion [JNum 1])
     = Inr (ok_response (JObj [(''meta'', JObj [(''on_latest'', JBool True)]),
                               (''data'', JStr ''2.4.0-dev'')]))
   \<and> fst (invoke demo_client GetVersion [JNum 1]
             (resolving (ok_response (JObj [(''meta'', JObj [(''on_latest'', JBool True)]),
                                            (''data'', JStr ''2.4.0-dev'')]))) world0)
       = Inr (JObj [(''meta'', JObj [(''on_latest'', JBool True)]), (''data'', JStr ''2.4.0-dev'')])
   \<and> fst (invoke demo_client GetVersion [JStr '''']
             (resolving (ok_response (JObj [(''meta'', JObj [(''on_latest'', JBool True)]),
                                            (''data'', JStr ''2.4.0-dev'')]))) world0)
       = Inr (JStr ''2.4.0-dev'')"
  using raw_mode_by_truthiness
          [of GetVersion "[JNum 1]" "JNum 1" "[]" JNull
              "resolving (ok_response (JObj [(''meta'', JObj [(''on_latest'', JBool True)]),
                                             (''data'', JStr ''2.4.0-dev'')]))"
              world0 demo_client
              "ok_response (JObj [(''meta'', JObj [(''on_latest'', JBool True)]),
                                  (''data'', JStr ''2.4.0-dev'')])"
              "JObj [(''meta'', JObj [(''on_latest'', JBool True)]), (''data'', JStr ''2.4.0-dev'')]"]
        raw_mode_by_truthiness
          [of GetVersion "[JStr '''']" "JStr ''''" "[]" JNull
              "resolving (ok_response (JObj [(''meta'', JObj [(''on_latest'', JBool True)]),
                                             (''data'', JStr ''2.4.0-dev'')]))"
              world0 demo_client
              "ok_response (JObj [(''meta'', JObj [(''on_latest'', JBool True)]),
                                  (''data'', JStr ''2.4.0-dev'')])"
              "JObj [(''meta'', JObj [(''on_latest'', JBool True)]), (''data'', JStr ''2.4.0-dev'')]"]
  by (simp add: resolving_def ok_response_def read_prop_def)

text \<open>
  Claim C3. The list operations take a flag that selects the raw envelope. \<^verbatim>\<open>getSubscribers\<close>
  and \<^verbatim>\<open>getMetricPoints\<close> have no such parameter: called with \<^verbatim>\<open>true\<close> they still return the
  unwrapped sequence, where \<^verbatim>\<open>getComponents\<close> returns the envelope with its \<^verbatim>\<open>meta\<close>.
\<close>

theorem subscribers_and_points_ignore_with_meta:
  "fst (invoke demo_client GetSubscribers [JBool True] (resolving (ok_response list_envelope)) world0)
     = Inr (JArr [JObj [(''id'', JNum 1)]])
   \<and> fst (invoke demo_client GetMetricPoints [JNum 1, JBool True]
             (resolving (ok_response list_envelope)) world0)
     = Inr (JArr [JObj [(''id'', JNum 1)]])
   \<and> fst (invoke demo_client GetComponents [JBool True] (resolving (ok_response list_envelope)) world0)
     = Inr list_envelope"
  by (simp add: invoke_unfold sample_defs unwrap_both_def unwrap_unless_def and_then_def
      read_prop_def arg_def del: invoke.simps)

section \<open>Error normalization\<close>

text \<open>
  Claim C1. For every operation: when the HTTP call throws an error that carries a response
  object, the operation raises one normalized error, whose message names the HTTP method and
  the request path and ends with a diagnostic made of the status code (if present), the
  status text (if present) and the JSON text of the response body (if present), in that
  order; when the error carries no response object, the diagnostic is the string form of the
  error itself. The caught value is one whose \<^verbatim>\<open>response\<close> can be read at all, that is, it
  is not \<^verbatim>\<open>undefined\<close> or \<^verbatim>\<open>null\<close>.
\<close>

theorem request_error_message:
  assumes "net (sent w) (issued this op args) = Inl e"
    and "thrown_read_prop e ''response'' = Inr r"
  shows "\<exists>s. toString e = Inr s \<and>
           fst (invoke this op args net w) =
             Inl (ErrorObject ''Error''
                    (''Unable to '' @ fst (endpoint op args) @ '' '' @ snd (endpoint op args)
                       @ '': '' @
                     (if truthy r then status_part r @ status_text_part r @ body_part r else s))
                    [])"
proof -
  obtain s where s: "toString e = Inr s"
    using toString_not_nullish [OF assms(2)] by blast
  have inv: "invoke this op args net w =
               throw (createError (snd (endpoint op args)) (fst (endpoint op args)) e
                        (after_request this op args w))"
    using assms(1) by (rule invoke_rejected)
  show ?thesis
  proof (cases "truthy r")
    case True
    then show ?thesis
      using s by (simp add: inv createError_with_response [OF assms(2)]
          throw_Inr new_request_error_def diagnostic_def)
  next
    case False
    then show ?thesis
      using s by (simp add: inv createError_without_response [OF assms(2) False s]
          throw_Inr new_request_error_def)
  qed
qed

theorem request_error_message_witness:
  "rejecting not_found (sent world0) (issued demo_client GetComponent [JNum 7]) = Inl not_found
   \<and> thrown_read_prop not_found ''response'' = Inr not_found_response
   \<and> fst (invoke demo_client GetComponent [JNum 7] (rejecting not_found) world0) =
        Inl (ErrorObject ''Error''
               (''Unable to GET /v1/components/7: 404 Not Found | {'' @ [CHR 0x22] @ ''errors''
                  @ [CHR 0x22] @ '':[]}'') [])"
  using request_error_message [of "rejecting not_found" world0 demo_client GetComponent
      "[JNum 7]" not_found not_found_response]
  by (simp add: eval_defs)

text \<open>
  Claim C10. The string form of the caught error is used only when the error has no
  response object at all. If it carries a response object whose status, status text and data
  are all absent (or otherwise falsy), the diagnostic is empty, so the message ends with
  \<^verbatim>\<open>": "\<close>, whatever the string form of the error is. When the status text is present, the
  separator \<^verbatim>\<open>" | "\<close> follows it.
\<close>

theorem createError_empty_diagnostic_and_separator:
  assumes "thrown_read_prop e ''response'' = Inr r" and "truthy r"
  shows "(\<not> truthy (own_property r ''status'') \<and> \<not> truthy (own_property r ''statusText'')
            \<and> \<not> truthy (own_property r ''data'')
          \<longrightarrow> fst (createError url type e w) =
                Inr (ErrorObject ''Error'' (''Unable to '' @ type @ '' '' @ url @ '': '') []))
       \<and> (truthy (own_property r ''statusText'')
          \<longrightarrow> fst (createError url type e w) =
                Inr (ErrorObject ''Error''
                       (''Unable to '' @ type @ '' '' @ url @ '': '' @ status_part r
                          @ (to_string (own_property r ''statusText'') @ '' | '') @ body_part r)
                       []))"
proof -
  have "fst (createError url type e w) = Inr (new_request_error type url (diagnostic r))"
    by (simp add: createError_with_response [OF assms])
  then show ?thesis
    by (simp add: new_request_error_def diagnostic_def status_part_def status_text_part_def
        body_part_def)
qed

theorem createError_empty_diagnostic_and_separator_witness:
  "thrown_read_prop (ErrorObject ''Error'' ''timeout of 1000ms exceeded'' [(''response'', JObj [])])
      ''response'' = Inr (JObj [])
   \<and> truthy (JObj [])
   \<and> fst (createError ''/v1/ping'' ''GET''
             (ErrorObject ''Error'' ''timeout of 1000ms exceeded'' [(''response'', JObj [])]) world0)
       = Inr (ErrorObject ''Error'' ''Unable to GET /v1/ping: '' [])
   \<and> thrown_read_prop not_found ''response'' = Inr not_found_response
   \<and> truthy not_found_response
   \<and> fst (createError ''/v1/components/7'' ''GET'' not_found world0) =
        Inr (ErrorObject ''Error''
               (''Unable to GET /v1/components/7: 404 Not Found | {'' @ [CHR 0x22] @ ''errors''
                  @ [CHR 0x22] @ '':[]}'') [])"
  using createError_empty_diagnostic_and_separator
          [of "ErrorObject ''Error'' ''timeout of 1000ms exceeded'' [(''response'', JObj [])]"
              "JObj []" "''/v1/ping''" "''GET''" world0]
        createError_empty_diagnostic_and_separator
          [of not_found not_found_response "''/v1/components/7''" "''GET''" world0]
  by (simp add: eval_defs)

section \<open>Failures that are not request errors\<close>

text \<open>
  Claim C7 says that a malformed response of a call that did not throw raises the request
  error. It does not: the response is not validated. With a body that lacks the \<^verbatim>\<open>data\<close> key,
  \<^verbatim>\<open>getComponent\<close> and \<^verbatim>\<open>ping\<close> return \<^verbatim>\<open>undefined\<close>.
\<close>

theorem body_without_data_key_returns_undefined:
  "fst (invoke demo_client GetComponent [JNum 7] (resolving (ok_response (JObj []))) world0)
     = Inr JUndefined
   \<and> fst (ping demo_client (resolving (ok_response (JObj []))) world0) = Inr JUndefined"
proof -
  have "fst (invoke demo_client Ping [] (resolving (ok_response (JObj []))) world0) = Inr JUndefined"
    by (simp add: invoke_unfold sample_defs unwrap_both_def and_then_def read_prop_def
        del: invoke.simps)
  moreover
  have "fst (invoke demo_client GetComponent [JNum 7] (resolving (ok_response (JObj []))) world0)
          = Inr JUndefined"
    by (simp add: invoke_unfold sample_defs unwrap_both_def and_then_def read_prop_def
        del: invoke.simps)
  ultimately show ?thesis by simp
qed

text \<open>
  Claim C7, amended. The request error is raised exactly when the HTTP call throws a value
  other than \<^verbatim>\<open>undefined\<close> or \<^verbatim>\<open>null\<close>. A response of a call that did not throw is not
  validated: when its body is a value other than \<^verbatim>\<open>null\<close> or \<^verbatim>\<open>undefined\<close> that lacks the
  \<^verbatim>\<open>data\<close> key, the operation raises nothing and returns
  \<^item> \<^verbatim>\<open>undefined\<close> from \<^verbatim>\<open>ping\<close>, from every get, add and update of one record, from
    \<^verbatim>\<open>getMetricPoints\<close> and \<^verbatim>\<open>getSubscribers\<close>, and from a flagged operation called with a
    falsy flag;
  \<^item> the body itself from a flagged operation (\<^verbatim>\<open>getVersion\<close> and the five flagged lists)
    called with a truthy flag;
  \<^item> \<^verbatim>\<open>true\<close> from every delete.
\<close>

theorem request_error_iff_call_throws:
  "((\<exists>x. fst (invoke this op args net w) =
            Inl (new_request_error (fst (endpoint op args)) (snd (endpoint op args)) x))
      \<longleftrightarrow> (\<exists>e. net (sent w) (issued this op args) = Inl e
                \<and> e \<noteq> Value JUndefined \<and> e \<noteq> Value JNull))
   \<and> (\<forall>response body.
         net (sent w) (issued this op args) = Inr response
         \<and> read_prop response ''data'' = Inr body \<and> body \<noteq> JUndefined \<and> body \<noteq> JNull
         \<and> own_property body ''data'' = JUndefined
         \<longrightarrow> (op \<in> {Ping, GetComponent, AddComponent, UpdateComponent,
                     GetComponentGroup, AddComponentGroup, UpdateComponentGroup,
                     GetIncident, AddIncident, UpdateIncident,
                     GetIncidentUpdate, AddIncidentUpdate, UpdateIncidentUpdate,
                     GetMetric, AddMetric, GetMetricPoints, AddMetricPoint,
                     GetSubscribers, AddSubscriber}
                \<longrightarrow> fst (invoke this op args net w) = Inr JUndefined)
             \<and> (op \<in> {GetVersion, GetComponents, GetComponentGroups, GetIncidents, GetMetrics}
                \<longrightarrow> fst (invoke this op args net w) =
                      (if truthy (arg args 0) then Inr body else Inr JUndefined))
             \<and> (op = GetIncidentUpdates
                \<longrightarrow> fst (invoke this op args net w) =
                      (if truthy (arg args 1) then Inr body else Inr JUndefined))
             \<and> (op \<in> {DeleteComponent, DeleteComponentGroup, DeleteIncident,
                       DeleteIncidentUpdate, DeleteMetric, DeleteMetricPoint, DeleteSubscriber}
                \<longrightarrow> fst (invoke this op args net w) = Inr (JBool True)))"
proof -
  have raised: "\<exists>x. fst (invoke this op args net w) =
                  Inl (new_request_error (fst (endpoint op args)) (snd (endpoint op args)) x)"
    if "net (sent w) (issued this op args) = Inl e" "e \<noteq> Value JUndefined" "e \<noteq> Value JNull" for e
    using that invoke_rejected_result [of net w this op args e] by auto
  have only_then: "\<exists>e. net (sent w) (issued this op args) = Inl e
                     \<and> e \<noteq> Value JUndefined \<and> e \<noteq> Value JNull"
    if res: "fst (invoke this op args net w) =
               Inl (new_request_error (fst (endpoint op args)) (snd (endpoint op args)) x)" for x
  proof (cases "net (sent w) (issued this op args)")
    case (Inl e)
    have "\<not> (e = Value JUndefined \<or> e = Value JNull)"
    proof
      assume "e = Value JUndefined \<or> e = Value JNull"
      then obtain v where "fst (invoke this op args net w) = Inl (type_error v ''toString'')"
        using Inl invoke_rejected_nullish [of net w this op args e] by blast
      with res show False by (simp add: type_error_not_request_error)
    qed
    with Inl show ?thesis by blast
  next
    case (Inr response)
    then have "fst (invoke this op args net w) = returned op args response"
      by (simp add: invoke_resolved)
    with res show ?thesis by (simp add: returned_not_request_error)
  qed
  have lenient:
    "(op \<in> {Ping, GetComponent, AddComponent, UpdateComponent,
             GetComponentGroup, AddComponentGroup, UpdateComponentGroup,
             GetIncident, AddIncident, UpdateIncident,
             GetIncidentUpdate, AddIncidentUpdate, UpdateIncidentUpdate,
             GetMetric, AddMetric, GetMetricPoints, AddMetricPoint,
             GetSubscribers, AddSubscriber}
        \<longrightarrow> fst (invoke this op args net w) = Inr JUndefined)
     \<and> (op \<in> {GetVersion, GetComponents, GetComponentGroups, GetIncidents, GetMetrics}
        \<longrightarrow> fst (invoke this op args net w) =
              (if truthy (arg args 0) then Inr body else Inr JUndefined))
     \<and> (op = GetIncidentUpdates
        \<longrightarrow> fst (invoke this op args net w) =
              (if truthy (arg args 1) then Inr body else Inr JUndefined))
     \<and> (op \<in> {DeleteComponent, DeleteComponentGroup, DeleteIncident,
               DeleteIncidentUpdate, DeleteMetric, DeleteMetricPoint, DeleteSubscriber}
        \<longrightarrow> fst (invoke this op args net w) = Inr (JBool True))"
    if resolved: "net (sent w) (issued this op args) = Inr response"
      and shape: "read_prop response ''data'' = Inr body" "body \<noteq> JUndefined" "body \<noteq> JNull"
        "own_property body ''data'' = JUndefined" for response body
  proof -
    have inv: "fst (invoke this op args net w) = returned op args response"
      using resolved by (simp add: invoke_resolved)
    have both: "unwrap_both response = Inr JUndefined"
      using shape by (rule unwrap_both_without_data_key)
    have unless: "unwrap_unless flag response = (if truthy flag then Inr body else Inr JUndefined)"
      for flag
      using shape by (rule unwrap_unless_without_data_key)
    show ?thesis
      unfolding inv using both unless by auto
  qed
  show ?thesis
    using raised only_then lenient by blast
qed

theorem request_error_iff_call_throws_witness:
  "(\<exists>x. fst (invoke demo_client GetComponent [JNum 7] (rejecting network_error) world0) =
           Inl (new_request_error ''GET'' ''/v1/components/7'' x))
   \<and> fst (invoke demo_client GetComponent [JNum 7] (resolving (ok_response (JObj []))) world0)
       = Inr JUndefined
   \<and> fst (invoke demo_client GetSubscribers [] (resolving (ok_response (JObj []))) world0)
       = Inr JUndefined
   \<and> fst (invoke demo_client GetComponents [] (resolving (ok_response (JObj []))) world0)
       = Inr JUndefined
   \<and> fst (invoke demo_client GetComponents [JNum 1] (resolving (ok_response (JObj []))) world0)
       = Inr (JObj [])
   \<and> fst (invoke demo_client GetIncidentUpdates [JNum 3, JStr ''raw'']
             (resolving (ok_response (JObj []))) world0)
       = Inr (JObj [])
   \<and> fst (invoke demo_client DeleteComponent [JNum 7] (resolving (ok_response (JObj []))) world0)
       = Inr (JBool True)"
  using request_error_iff_call_throws
          [of demo_client GetComponent "[JNum 7]" "rejecting network_error" world0]
        request_error_iff_call_throws
          [of demo_client GetComponent "[JNum 7]" "resolving (ok_response (JObj []))" world0]
        request_error_iff_call_throws
          [of demo_client GetSubscribers "[]" "resolving (ok_response (JObj []))" world0]
        request_error_iff_call_throws
          [of demo_client GetComponents "[]" "resolving (ok_response (JObj []))" world0]
        request_error_iff_call_throws
          [of demo_client GetComponents "[JNum 1]" "resolving (ok_response (JObj []))" world0]
        request_error_iff_call_throws
          [of demo_client GetIncidentUpdates "[JNum 3, JStr ''raw'']"
              "resolving (ok_response (JObj []))" world0]
        request_error_iff_call_throws
          [of demo_client DeleteComponent "[JNum 7]" "resolving (ok_response (JObj []))" world0]
  by (simp add: eval_defs del: invoke.simps)

text \<open>
  Claim C8 says that a failing invocation always surfaces a normalized error. An invocation
  can also fail after its call has resolved: when the body of the response is \<^verbatim>\<open>null\<close>,
  reading its \<^verbatim>\<open>data\<close> throws a \<^verbatim>\<open>TypeError\<close> outside the \<^verbatim>\<open>try\<close>, and that error reaches the
  caller as it is.
\<close>

theorem null_body_raises_type_error:
  "fst (invoke demo_client Ping [] (resolving (ok_response JNull)) world0)
     = Inl (ErrorObject ''TypeError''
              (''Cannot read properties of null (reading '' @ [CHR 0x27] @ ''data'' @ [CHR 0x27]
                 @ '')'') [])"
  by (simp add: invoke_unfold sample_defs unwrap_both_def and_then_def read_prop_def type_error_def
      del: invoke.simps)

text \<open>
  Claim C8, amended. Every invocation issues exactly one request, also when the call fails:
  nothing is retried. An invocation whose HTTP call throws (a value other than \<^verbatim>\<open>undefined\<close>
  or \<^verbatim>\<open>null\<close>) raises exactly one normalized error, after logging the caught one once. An
  invocation whose call resolves logs nothing, and if it fails it is with the \<^verbatim>\<open>TypeError\<close> of
  reading \<^verbatim>\<open>data\<close>.
\<close>

theorem one_request_no_retry:
  "sent (snd (invoke this op args net w)) = sent w @ [issued this op args]
   \<and> (\<forall>e. net (sent w) (issued this op args) = Inl e \<and> e \<noteq> Value JUndefined \<and> e \<noteq> Value JNull
        \<longrightarrow> (\<exists>x. invoke this op args net w =
                   (Inl (new_request_error (fst (endpoint op args)) (snd (endpoint op args)) x),
                    w\<lparr>sent := sent w @ [issued this op args], console := console w @ [e]\<rparr>)))
   \<and> (\<forall>response. net (sent w) (issued this op args) = Inr response
        \<longrightarrow> snd (invoke this op args net w) = w\<lparr>sent := sent w @ [issued this op args]\<rparr>
            \<and> (\<forall>t. fst (invoke this op args net w) = Inl t \<longrightarrow> (\<exists>x. t = type_error x ''data'')))"
proof -
  have one: "sent (snd (invoke this op args net w)) = sent w @ [issued this op args]"
    by (rule sent_invoke)
  have failed: "\<exists>x. invoke this op args net w =
                  (Inl (new_request_error (fst (endpoint op args)) (snd (endpoint op args)) x),
                   w\<lparr>sent := sent w @ [issued this op args], console := console w @ [e]\<rparr>)"
    if "net (sent w) (issued this op args) = Inl e \<and> e \<noteq> Value JUndefined \<and> e \<noteq> Value JNull" for e
    using that invoke_rejected_result by blast
  have resolved: "snd (invoke this op args net w) = w\<lparr>sent := sent w @ [issued this op args]\<rparr>
                    \<and> (\<forall>t. fst (invoke this op args net w) = Inl t \<longrightarrow> (\<exists>x. t = type_error x ''data''))"
    if "net (sent w) (issued this op args) = Inr response" for response
    using that returned_failure [of op args response]
    by (simp add: invoke_resolved after_request_def)
  show ?thesis
    using one failed resolved by blast
qed

theorem one_request_no_retry_witness:
  "sent (snd (invoke demo_client AddComponent [JObj [(''name'', JStr ''added component'')]]
                (rejecting network_error) world0))
     = [\<lparr>verb = ''POST'', path = ''/v1/components'',
          payload = Some (JObj [(''name'', JStr ''added component'')]),
          base = JStr ''https://demo.cachethq.io/api'',
          hdrs = [(''X-Cachet-Token'', JStr ''9yMHsdioQosnyVK4iCVR'')]\<rparr>]
   \<and> (\<exists>x. invoke demo_client AddComponent [JObj [(''name'', JStr ''added component'')]]
               (rejecting network_error) world0
             = (Inl (new_request_error ''POST'' ''/v1/components'' x),
                \<lparr>sent = [\<lparr>verb = ''POST'', path = ''/v1/components'',
                           payload = Some (JObj [(''name'', JStr ''added component'')]),
                           base = JStr ''https://demo.cachethq.io/api'',
                           hdrs = [(''X-Cachet-Token'', JStr ''9yMHsdioQosnyVK4iCVR'')]\<rparr>],
                  console = [network_error]\<rparr>))"
  using one_request_no_retry
          [of demo_client AddComponent "[JObj [(''name'', JStr ''added component'')]]"
              "rejecting network_error" world0]
  by (simp add: eval_defs)


end
